theory Spec2Isabelle
  imports Main "HOL-Library.Word"
begin

unbundle bit_operations_syntax

section \<open>IEEE-754 doubles\<close>

text \<open>
  Python floats and LLVM's \<open>double\<close> are IEEE-754 binary64 values. A double is modelled by
  its 64 bits: bit 63 is the sign, bits 62..52 the biased exponent, bits 51..0 the fraction.
  Comparison, negation, \<open>copysign\<close>, the multiplication of numbers and the conversion to a
  32-bit integer are defined on the bits. Addition, division, \<open>exp\<close>, \<open>log\<close> and the NaN
  results of the multiplication are parameters of the semantics (record \<open>fp_ops\<close> below): no
  property proved here depends on their values.
\<close>

type_synonym f64 = "64 word"

definition f64_sign :: "f64 \<Rightarrow> bool" where
  "f64_sign x = bit x 63"

definition f64_mag :: "f64 \<Rightarrow> nat" where
  "f64_mag x = unat (take_bit 63 x)"

definition f64_inf_mag :: nat where
  "f64_inf_mag = 0x7FF0000000000000"

definition is_nan :: "f64 \<Rightarrow> bool" where
  "is_nan x = (f64_inf_mag < f64_mag x)"

definition is_inf :: "f64 \<Rightarrow> bool" where
  "is_inf x = (f64_mag x = f64_inf_mag)"


definition is_zero :: "f64 \<Rightarrow> bool" where
  "is_zero x = (f64_mag x = 0)"

text \<open>
  On doubles that are not NaN, the numeric order is the order of the sign-magnitude
  integers; both zeros have key 0.
\<close>

definition f64_key :: "f64 \<Rightarrow> int" where
  "f64_key x = (if f64_sign x then - int (f64_mag x) else int (f64_mag x))"

definition f64_pos_zero :: f64 where "f64_pos_zero = 0"
definition f64_one :: f64 where "f64_one = 0x3FF0000000000000"
definition f64_pos_inf :: f64 where "f64_pos_inf = 0x7FF0000000000000"
definition f64_neg_inf :: f64 where "f64_neg_inf = 0xFFF0000000000000"

text \<open>The comparison operators of Python and of LLVM's \<open>fcmp\<close>, written as in the source.\<close>

definition cmp_key :: "string \<Rightarrow> (int \<Rightarrow> int \<Rightarrow> bool) option" where
  "cmp_key cmpop =
     (if cmpop = ''<='' then Some (\<lambda>a b. a \<le> b)
      else if cmpop = ''<'' then Some (\<lambda>a b. a < b)
      else if cmpop = ''=='' then Some (\<lambda>a b. a = b)
      else if cmpop = ''>'' then Some (\<lambda>a b. a > b)
      else if cmpop = ''>='' then Some (\<lambda>a b. a \<ge> b)
      else if cmpop = ''!='' then Some (\<lambda>a b. a \<noteq> b)
      else None)"

text \<open>Ordered: false when an operand is NaN. Unordered: true when an operand is NaN.\<close>

definition f64_cmp_ordered :: "string \<Rightarrow> f64 \<Rightarrow> f64 \<Rightarrow> bool option" where
  "f64_cmp_ordered cmpop a b =
     (case cmp_key cmpop of None \<Rightarrow> None
      | Some r \<Rightarrow> Some (\<not> is_nan a \<and> \<not> is_nan b \<and> r (f64_key a) (f64_key b)))"

definition f64_cmp_unordered :: "string \<Rightarrow> f64 \<Rightarrow> f64 \<Rightarrow> bool option" where
  "f64_cmp_unordered cmpop a b =
     (case cmp_key cmpop of None \<Rightarrow> None
      | Some r \<Rightarrow> Some (is_nan a \<or> is_nan b \<or> r (f64_key a) (f64_key b)))"

text \<open>Python's \<open>a <= b\<close>, \<open>a < b\<close> on floats and the truth value \<open>bool(a)\<close>.\<close>

definition py_le :: "f64 \<Rightarrow> f64 \<Rightarrow> bool" where
  "py_le a b = (\<not> is_nan a \<and> \<not> is_nan b \<and> f64_key a \<le> f64_key b)"

definition py_lt :: "f64 \<Rightarrow> f64 \<Rightarrow> bool" where
  "py_lt a b = (\<not> is_nan a \<and> \<not> is_nan b \<and> f64_key a < f64_key b)"


definition f64_neg :: "f64 \<Rightarrow> f64" where
  "f64_neg x = x XOR 0x8000000000000000"

definition f64_copysign :: "f64 \<Rightarrow> f64 \<Rightarrow> f64" where
  "f64_copysign m s = (take_bit 63 m) OR (s AND 0x8000000000000000)"

text \<open>
  A finite double is \<open>(-1)^sign * f64_sig * 2 ^ f64_pow\<close> with an integer significand
  below \<open>2^53\<close>.
\<close>

definition f64_exp :: "f64 \<Rightarrow> nat" where
  "f64_exp x = unat (take_bit 11 (drop_bit 52 x))"

definition f64_frac :: "f64 \<Rightarrow> nat" where
  "f64_frac x = unat (take_bit 52 x)"

definition f64_sig :: "f64 \<Rightarrow> nat" where
  "f64_sig x = (if f64_exp x = 0 then f64_frac x else 2 ^ 52 + f64_frac x)"

definition f64_pow :: "f64 \<Rightarrow> int" where
  "f64_pow x = int (max (f64_exp x) 1) - 1075"

fun bitlen :: "nat \<Rightarrow> nat" where
  "bitlen n = (if n = 0 then 0 else Suc (bitlen (n div 2)))"

declare bitlen.simps [simp del]

definition f64_signbit :: "bool \<Rightarrow> f64" where
  "f64_signbit s = (if s then 0x8000000000000000 else 0)"

text \<open>\<open>f64_round s m e\<close> is the double nearest to \<open>(-1)^s * m * 2^e\<close>, ties to even.\<close>

definition f64_round :: "bool \<Rightarrow> nat \<Rightarrow> int \<Rightarrow> f64" where
  "f64_round s m e =
     (if m = 0 then f64_signbit s
      else
        let e' = max (e + int (bitlen m) - 53) (- 1074);
            q = (if e' \<le> e then m * 2 ^ nat (e - e')
                 else
                   let d = nat (e' - e);
                       q0 = m div 2 ^ d;
                       r = m mod 2 ^ d;
                       h = 2 ^ (d - 1)
                   in if h < r \<or> (r = h \<and> odd q0) then q0 + 1 else q0);
            w = nat (e' + 1074) * 2 ^ 52 + q
        in if f64_inf_mag \<le> w then f64_signbit s OR f64_pos_inf
           else f64_signbit s OR of_nat w)"

text \<open>
  The operations that are not fixed bit for bit are parameters of the semantics: addition,
  division, \<open>exp\<close> and \<open>log\<close>, and the NaN that a multiplication returns when an operand is a
  NaN or the product is \<open>0 * infinity\<close> (LLVM leaves its sign and payload to the target; the
  usual choice is an operand NaN with its payload kept).
\<close>

record fp_ops =
  op_fadd :: "f64 \<Rightarrow> f64 \<Rightarrow> f64"
  op_fdiv :: "f64 \<Rightarrow> f64 \<Rightarrow> f64"
  op_exp :: "f64 \<Rightarrow> f64"
  op_log :: "f64 \<Rightarrow> f64"
  op_fmul_nan :: "f64 \<Rightarrow> f64 \<Rightarrow> f64"

definition f64_mul :: "fp_ops \<Rightarrow> f64 \<Rightarrow> f64 \<Rightarrow> f64" where
  "f64_mul ops a b =
     (let s = (f64_sign a \<noteq> f64_sign b) in
      if is_nan a \<or> is_nan b then op_fmul_nan ops a b
      else if is_inf a \<or> is_inf b then
        (if is_zero a \<or> is_zero b then op_fmul_nan ops a b else f64_signbit s OR f64_pos_inf)
      else f64_round s (f64_sig a * f64_sig b) (f64_pow a + f64_pow b))"

text \<open>
  \<open>fptosi double to i32\<close>: truncation towards zero. LLVM leaves the result undefined when
  the value does not fit or is NaN; the x86-64 instruction the JIT selects returns
  \<open>INT_MIN\<close> there, which is what the source's comment in
  \<open>_populate_categorical_node_block\<close> relies on.
\<close>

definition INT_MIN :: "32 word" where
  "INT_MIN = 0x80000000"

definition f64_trunc :: "f64 \<Rightarrow> int" where
  "f64_trunc x =
     (let m = (if 0 \<le> f64_pow x then int (f64_sig x) * 2 ^ nat (f64_pow x)
               else int (f64_sig x) div 2 ^ nat (- f64_pow x))
      in if f64_sign x then - m else m)"

definition fptosi :: "f64 \<Rightarrow> 32 word" where
  "fptosi x =
     (if is_nan x \<or> is_inf x then INT_MIN
      else if - (2 ^ 31) \<le> f64_trunc x \<and> f64_trunc x < 2 ^ 31 then word_of_int (f64_trunc x)
      else INT_MIN)"

section \<open>The forest (lleaves/compiler/ast/nodes.py)\<close>

datatype error =
    AssertionError
  | AttributeError
  | IndexError
  | TypeError
  | ValueError_float string
  | ValueError_sigmoid f64
  | ValueError_objective string

datatype MissingType = MNone | MZero | MNaN

text \<open>
  Modelled from the spec: \<open>DecisionType\<close> is defined in \<open>lleaves/compiler/utils.py\<close>, which
  is not among the sources. The code reads its three properties \<open>is_categorical\<close>,
  \<open>is_default_left\<close> and \<open>missing_type\<close>; the spec describes it as the record of these.
\<close>

record DecisionType =
  is_categorical :: bool
  is_default_left :: bool
  missing_type :: MissingType

text \<open>
  Modelled from the spec: the class of the elements of \<open>Forest.features\<close> is not among the
  sources; the code reads \<open>is_categorical\<close> only.
\<close>

record Feature =
  feature_is_categorical :: bool

text \<open>
  \<open>LeafNode\<close> and \<open>DecisionNode\<close>. The children are \<open>None\<close> until \<open>add_children\<close> is called,
  and \<open>cat_threshold\<close> is \<open>None\<close> until \<open>finalize_categorical\<close> is called. The threshold of a
  numerical node is a Python float. The fields \<open>left_idx\<close> and \<open>right_idx\<close> are written by
  the constructor and read nowhere in the sources; they are left out.
\<close>

datatype node =
    LeafNode (leaf_idx: int) (leaf_value: f64)
  | DecisionNode (node_idx: int) (split_feature: int) (threshold: f64)
      (decision_type: DecisionType) (cat_threshold: "int list option")
      (left: "node option") (right: "node option")

fun is_leaf :: "node \<Rightarrow> bool" where
  "is_leaf (LeafNode _ _) = True"
| "is_leaf (DecisionNode _ _ _ _ _ _ _) = False"

fun add_children :: "node \<Rightarrow> node \<Rightarrow> node \<Rightarrow> node" where
  "add_children (DecisionNode i sf t dt ct _ _) l r = DecisionNode i sf t dt ct (Some l) (Some r)"
| "add_children (LeafNode i v) l r = LeafNode i v"


record Tree =
  tree_idx :: int
  root_node :: "node option"
  tree_features :: "Feature list"
  class_id :: int

record Forest =
  trees :: "Tree list"
  features :: "Feature list"
  n_classes :: int
  objective_func :: string
  objective_func_config :: string

definition n_args :: "Forest \<Rightarrow> nat" where
  "n_args forest = length (features forest)"

section \<open>Python helpers\<close>

text \<open>\<open>xs[i]\<close>: a negative index counts from the end, an index out of range raises.\<close>

definition py_index :: "'a list \<Rightarrow> int \<Rightarrow> error + 'a" where
  "py_index xs i =
     (if 0 \<le> i \<and> i < int (length xs) then Inr (xs ! nat i)
      else if i < 0 \<and> - int (length xs) \<le> i then Inr (xs ! nat (int (length xs) + i))
      else Inl IndexError)"

text \<open>\<open>str(i)\<close> for an integer.\<close>

fun str_nat :: "nat \<Rightarrow> string" where
  "str_nat n =
     (if n < 10 then [char_of (48 + n)]
      else str_nat (n div 10) @ [char_of (48 + n mod 10)])"

declare str_nat.simps [simp del]

definition str_int :: "int \<Rightarrow> string" where
  "str_int i = (if i < 0 then CHR ''-'' # str_nat (nat (- i)) else str_nat (nat i))"

text \<open>\<open>s.split(c)\<close> for a separator of one character, and \<open>sub in s\<close>.\<close>

fun split_on :: "char \<Rightarrow> string \<Rightarrow> string list" where
  "split_on c [] = [[]]"
| "split_on c (x # xs) =
     (if x = c then [] # split_on c xs
      else (case split_on c xs of
              [] \<Rightarrow> [[x]]
            | w # ws \<Rightarrow> (x # w) # ws))"

fun starts_with :: "string \<Rightarrow> string \<Rightarrow> bool" where
  "starts_with [] s = True"
| "starts_with (x # xs) [] = False"
| "starts_with (x # xs) (y # ys) = (x = y \<and> starts_with xs ys)"

fun py_in :: "string \<Rightarrow> string \<Rightarrow> bool" where
  "py_in sub [] = (sub = [])"
| "py_in sub (c # cs) = (starts_with sub (c # cs) \<or> py_in sub cs)"

section \<open>The IR built through llvmlite\<close>

text \<open>
  The generator calls llvmlite's \<open>ir\<close> module. Each builder method creates the instruction
  it is named after, whose operands are the values passed; the embedding represents an
  instruction by the tree of its operands. A block keeps, in the order they are emitted, the
  instructions that write memory or end the block; every other instruction is reachable as
  an operand of one of these. Checks that llvmlite performs on its own are not part of the
  model: the errors below are the ones the Python code of the sources can raise.
\<close>

datatype ir_type =
    IntType nat
  | FloatType
  | DoubleType
  | VoidType
  | PointerType ir_type
  | VectorType ir_type nat

definition BOOL :: ir_type where "BOOL = IntType 1"
definition DOUBLE :: ir_type where "DOUBLE = DoubleType"
definition FLOAT :: ir_type where "FLOAT = FloatType"
definition INT_CAT :: ir_type where "INT_CAT = IntType 32"
definition INT_T :: ir_type where "INT_T = IntType 32"
definition FLOAT_POINTER :: ir_type where "FLOAT_POINTER = PointerType FLOAT"
definition DOUBLE_PTR :: ir_type where "DOUBLE_PTR = PointerType DOUBLE"

datatype pyconst = PyInt int | PyFloat f64

text \<open>
  A callee is a function of the module, identified by its position in the module (the
  \<open>ir.Function\<close> object), or an intrinsic declared with \<open>declare_intrinsic\<close>.
\<close>

datatype callee = FunctionRef nat | IntrinsicRef string

datatype binop = OpAdd | OpMul | OpUDiv | OpURem | OpLShr | OpFAdd | OpFMul | OpFDiv | OpOr

datatype cmp_kind = Signed | Unsigned | Ordered | Unordered

datatype castop = OpTrunc | OpFPToSI

datatype val =
    Argument nat ir_type
  | Constant ir_type pyconst
  | ConstantVec ir_type "val list"
  | Alloca ir_type nat string
  | Load val
  | Gep val "val list"
  | BinOp binop val val
  | Cmp cmp_kind string val val
  | Not val
  | Cast castop val ir_type
  | ExtractElement val val
  | Select val val val
  | Call callee "val list"

text \<open>The builder methods the generator calls.\<close>

abbreviation "Add \<equiv> BinOp OpAdd"
abbreviation "Mul \<equiv> BinOp OpMul"
abbreviation "UDiv \<equiv> BinOp OpUDiv"
abbreviation "URem \<equiv> BinOp OpURem"
abbreviation "LShr \<equiv> BinOp OpLShr"
abbreviation "FAdd \<equiv> BinOp OpFAdd"
abbreviation "FMul \<equiv> BinOp OpFMul"
abbreviation "FDiv \<equiv> BinOp OpFDiv"
abbreviation "BitOr \<equiv> BinOp OpOr"
abbreviation "ICmpSigned \<equiv> Cmp Signed"
abbreviation "ICmpUnsigned \<equiv> Cmp Unsigned"
abbreviation "FCmpOrdered \<equiv> Cmp Ordered"
abbreviation "FCmpUnordered \<equiv> Cmp Unordered"
abbreviation "Trunc \<equiv> Cast OpTrunc"
abbreviation "FPToSI \<equiv> Cast OpFPToSI"

datatype instr =
    Store val val
  | Ret val
  | RetVoid
  | Branch nat
  | CBranch val nat nat

record ir_function =
  fn_name :: string
  fn_return :: ir_type
  fn_args :: "ir_type list"
  fn_blocks :: "instr list list"

record ir_module =
  mod_functions :: "ir_function list"
  mod_intrinsics :: "(string \<times> ir_type list) list"

definition iconst :: "int \<Rightarrow> val" where
  "iconst v = Constant INT_T (PyInt v)"

definition fconst :: "f64 \<Rightarrow> val" where
  "fconst v = Constant FLOAT (PyFloat v)"

definition dconst :: "f64 \<Rightarrow> val" where
  "dconst v = Constant DOUBLE (PyFloat v)"

text \<open>\<open>ir.Function(module, ftype, name)\<close>: a new function without blocks.\<close>

definition new_function :: "ir_type \<Rightarrow> ir_type list \<Rightarrow> string \<Rightarrow> ir_function" where
  "new_function ret tys name =
     \<lparr>fn_name = name, fn_return = ret, fn_args = tys, fn_blocks = []\<rparr>"

text \<open>\<open>func.args\<close>: the arguments of a function, each with its type.\<close>

definition func_args :: "ir_function \<Rightarrow> val list" where
  "func_args func = map (\<lambda>(i, ty). Argument i ty) (zip [0 ..< length (fn_args func)] (fn_args func))"

text \<open>
  \<open>func.append_basic_block(name)\<close> adds an empty block at the end of the function and
  returns it. A block is identified by its position in the function. llvmlite labels the
  block with the name it is given, or with that name and a counter when the name is already
  taken in the function; the label has no part in the meaning of the function and is not
  kept in the model.
\<close>

definition append_basic_block :: "ir_function \<Rightarrow> string \<Rightarrow> nat \<times> ir_function" where
  "append_basic_block func name =
     (length (fn_blocks func), func\<lparr>fn_blocks := fn_blocks func @ [[]]\<rparr>)"

text \<open>A builder positioned at the end of block \<open>b\<close> emits instruction \<open>i\<close>.\<close>

definition emit :: "ir_function \<Rightarrow> nat \<Rightarrow> instr \<Rightarrow> ir_function" where
  "emit func b i = func\<lparr>fn_blocks := (fn_blocks func)[b := fn_blocks func ! b @ [i]]\<rparr>"

section \<open>Code generation (lleaves/compiler/codegen/codegen.py)\<close>

fun str_node :: "node option \<Rightarrow> string" where
  "str_node None = ''None''"
| "str_node (Some (LeafNode i v)) = ''leaf_'' @ str_int i"
| "str_node (Some (DecisionNode i sf t dt ct l r)) = ''node_'' @ str_int i"

definition str_tree :: "Tree \<Rightarrow> string" where
  "str_tree tree = ''tree_'' @ str_int (tree_idx tree)"

subsection \<open>Numerical nodes\<close>

fun populate_numerical_node_block :: "ir_function \<Rightarrow> node \<Rightarrow> error + val" where
  "populate_numerical_node_block func (DecisionNode i sf t dt ct l r) =
     (case py_index (func_args func) sf of
        Inl e \<Rightarrow> Inl e
      | Inr val \<Rightarrow>
          let thresh = Constant DOUBLE (PyFloat t);
              missing_t = missing_type dt;
              default_left =
                (if missing_type dt = MNone then py_le f64_pos_zero t else is_default_left dt)
          in Inr
            (if default_left then
               (if missing_t \<noteq> MZero \<or> (missing_t = MZero \<and> py_le f64_pos_zero t) then
                  FCmpUnordered ''<='' val thresh
                else
                  let is_missing = FCmpUnordered ''=='' val (fconst f64_pos_zero);
                      less_eq = FCmpUnordered ''<='' val thresh
                  in BitOr is_missing less_eq)
             else
               (if missing_t \<noteq> MZero \<or> (missing_t = MZero \<and> py_lt t f64_pos_zero) then
                  FCmpOrdered ''<='' val thresh
                else
                  let is_missing = FCmpUnordered ''=='' val (fconst f64_pos_zero);
                      greater = FCmpOrdered ''>'' val thresh
                  in Not (BitOr is_missing greater))))"
| "populate_numerical_node_block func (LeafNode i v) = Inl AttributeError"

subsection \<open>Categorical nodes\<close>

text \<open>
  The range check and its branch go to the block of \<open>builder\<close>; the returned comparison is
  made of instructions of the bitset-compare block. \<open>len(None)\<close> raises \<open>TypeError\<close>.
\<close>

fun populate_categorical_node_block ::
  "ir_function \<Rightarrow> nat \<Rightarrow> node \<Rightarrow> nat \<Rightarrow> nat \<Rightarrow> error + (ir_function \<times> val)" where
  "populate_categorical_node_block func builder (DecisionNode i sf t dt ct l r)
       bitset_comp_block right_block =
     (case py_index (func_args func) sf of
        Inl e \<Rightarrow> Inl e
      | Inr val \<Rightarrow>
          (case ct of
             None \<Rightarrow> Inl TypeError
           | Some cat_thr \<Rightarrow>
               let cond = ICmpUnsigned ''<'' val (iconst (32 * int (length cat_thr)));
                   func' = emit func builder (CBranch cond bitset_comp_block right_block);
                   idx = UDiv val (iconst 32);
                   bit_vecs = ConstantVec (VectorType INT_T (length cat_thr))
                                (map (\<lambda>i. Constant INT_T (PyInt i)) cat_thr);
                   shift = URem val (iconst 32);
                   bit_vec = ExtractElement bit_vecs idx;
                   bit_entry = LShr bit_vec shift;
                   cond = Trunc bit_entry BOOL
               in Inr (func', cond)))"
| "populate_categorical_node_block func builder (LeafNode i v) bitset_comp_block right_block =
     Inl AttributeError"

subsection \<open>Nodes\<close>

text \<open>
  \<open>node.left.is_leaf and node.right.is_leaf\<close>: a missing child raises \<open>AttributeError\<close>;
  the right child is not looked at when the left one is not a leaf.
\<close>

definition is_fused_double_leaf_node :: "node option \<Rightarrow> node option \<Rightarrow> error + bool" where
  "is_fused_double_leaf_node l r =
     (case l of
        None \<Rightarrow> Inl AttributeError
      | Some ln \<Rightarrow>
          if is_leaf ln then
            (case r of None \<Rightarrow> Inl AttributeError | Some rn \<Rightarrow> Inr (is_leaf rn))
          else Inr False)"

text \<open>The child blocks of a decision node: \<open>(left_block, right_block, func)\<close>.\<close>

definition child_blocks ::
  "ir_function \<Rightarrow> bool \<Rightarrow> bool \<Rightarrow> node option \<Rightarrow> node option
     \<Rightarrow> nat option \<times> nat option \<times> ir_function" where
  "child_blocks func fused categorical l r =
     (if fused then
        (if categorical then
           (let (right_block, func1) = append_basic_block func (str_node r)
            in (None, Some right_block, func1))
         else (None, None, func))
      else
        (let (left_block, func1) = append_basic_block func (str_node l);
             (right_block, func2) = append_basic_block func1 (str_node r)
         in (Some left_block, Some right_block, func2)))"

text \<open>
  The node's block up to the terminal statement: \<open>(func, builder, cond)\<close>, where \<open>builder\<close>
  is the block that receives the terminal statement. A categorical node always has a right
  block.
\<close>

definition populate_node_block ::
  "ir_function \<Rightarrow> nat \<Rightarrow> node \<Rightarrow> nat option \<Rightarrow> error + (ir_function \<times> nat \<times> val)" where
  "populate_node_block func node_block node right_block =
     (if is_categorical (decision_type node) then
        (let (bitset_comp_block, func1) =
               append_basic_block func (str_node (Some node) @ ''_cat_bitset_comp'')
         in case populate_categorical_node_block func1 node_block node bitset_comp_block
                   (the right_block) of
              Inl e \<Rightarrow> Inl e
            | Inr (func2, cond) \<Rightarrow> Inr (func2, bitset_comp_block, cond))
      else
        (case populate_numerical_node_block func node of
           Inl e \<Rightarrow> Inl e
         | Inr cond \<Rightarrow> Inr (func, node_block, cond)))"

text \<open>
  The terminal statement. In the fused case both children are leaves; otherwise both child
  blocks exist.
\<close>

definition terminal_statement ::
  "bool \<Rightarrow> val \<Rightarrow> node option \<Rightarrow> node option \<Rightarrow> nat option \<Rightarrow> nat option \<Rightarrow> instr" where
  "terminal_statement fused cond l r left_block right_block =
     (if fused then
        Ret (Select cond (dconst (leaf_value (the l))) (dconst (leaf_value (the r))))
      else CBranch cond (the left_block) (the right_block))"

function gen_node :: "ir_function \<Rightarrow> nat \<Rightarrow> node option \<Rightarrow> error + ir_function" where
  "gen_node func node_block None = Inl AttributeError"
| "gen_node func node_block (Some (LeafNode i v)) =
     Inr (emit func node_block (Ret (dconst v)))"
| "gen_node func node_block (Some (DecisionNode i sf t dt ct l r)) =
     (case is_fused_double_leaf_node l r of
        Inl e \<Rightarrow> Inl e
      | Inr fused \<Rightarrow>
          (case child_blocks func fused (is_categorical dt) l r of
             (left_block, right_block, func1) \<Rightarrow>
               (case populate_node_block func1 node_block (DecisionNode i sf t dt ct l r)
                       right_block of
                  Inl e \<Rightarrow> Inl e
                | Inr (func2, builder, cond) \<Rightarrow>
                    (case (case left_block of
                             None \<Rightarrow> Inr (emit func2 builder
                                       (terminal_statement fused cond l r left_block right_block))
                           | Some lb \<Rightarrow> gen_node (emit func2 builder
                                       (terminal_statement fused cond l r left_block right_block))
                                       lb l) of
                       Inl e \<Rightarrow> Inl e
                     | Inr func4 \<Rightarrow>
                         (case right_block of
                            None \<Rightarrow> Inr func4
                          | Some rb \<Rightarrow> gen_node func4 rb r)))))"
  by pat_completeness auto
termination
  by (relation "measure (\<lambda>(func, node_block, n). size_option size n)") auto

definition gen_tree :: "Tree \<Rightarrow> ir_function \<Rightarrow> error + ir_function" where
  "gen_tree tree tree_func =
     (let (node_block, func1) = append_basic_block tree_func (str_node (root_node tree))
      in gen_node func1 node_block (root_node tree))"

subsection \<open>Objective functions\<close>

text \<open>
  \<open>declare_intrinsic\<close> registers the intrinsic in the module, once, and returns it.
\<close>

definition declare_intrinsic :: "ir_module \<Rightarrow> string \<Rightarrow> ir_type list \<Rightarrow> callee \<times> ir_module" where
  "declare_intrinsic module name tys =
     (IntrinsicRef name,
      if (name, tys) \<in> set (mod_intrinsics module) then module
      else module\<lparr>mod_intrinsics := mod_intrinsics module @ [(name, tys)]\<rparr>)"

definition declare_intrinsics :: "ir_module \<Rightarrow> ir_module" where
  "declare_intrinsics module =
     (let (llvm_exp, module1) = declare_intrinsic module ''llvm.exp'' [DOUBLE];
          (llvm_log, module2) = declare_intrinsic module1 ''llvm.log'' [DOUBLE];
          (llvm_copysign, module3) = declare_intrinsic module2 ''llvm.copysign'' [DOUBLE, DOUBLE]
      in module3)"

definition llvm_exp :: callee where "llvm_exp = IntrinsicRef ''llvm.exp''"
definition llvm_log :: callee where "llvm_log = IntrinsicRef ''llvm.log''"
definition llvm_copysign :: callee where "llvm_copysign = IntrinsicRef ''llvm.copysign''"

text \<open>\<open>_populate_sigmoid\<close>: \<open>1 / (1 + exp(- alpha * x))\<close>.\<close>

definition populate_sigmoid :: "val \<Rightarrow> f64 \<Rightarrow> error + val" where
  "populate_sigmoid input alpha =
     (if py_le alpha f64_pos_zero then Inl (ValueError_sigmoid alpha)
      else
        let inner = FMul (dconst (f64_neg alpha)) input;
            e = Call llvm_exp [inner];
            denom = FAdd (dconst f64_one) e
        in Inr (FDiv (dconst f64_one) denom))"

text \<open>
  Python's \<open>float(s)\<close> is a parameter: \<open>py_float s\<close> is \<open>None\<close> where \<open>float(s)\<close> raises
  \<open>ValueError\<close>. The objective and its configuration are strings; the empty configuration
  is false in \<open>objective_config and ...\<close>.
\<close>

definition populate_objective_func_block ::
  "(string \<Rightarrow> f64 option) \<Rightarrow> val \<Rightarrow> string \<Rightarrow> string \<Rightarrow> error + val" where
  "populate_objective_func_block py_float input objective objective_config =
     (if objective = ''binary'' then
        (case py_index (split_on CHR '':'' objective_config) 1 of
           Inl e \<Rightarrow> Inl e
         | Inr alpha \<Rightarrow>
             (case py_float alpha of
                None \<Rightarrow> Inl (ValueError_float alpha)
              | Some a \<Rightarrow> populate_sigmoid input a))
      else if objective \<in> set [''xentropy'', ''cross_entropy''] then
        populate_sigmoid input f64_one
      else if objective \<in> set [''xentlambda'', ''cross_entropy_lambda''] then
        (let e = Call llvm_exp [input]
         in Inr (Call llvm_log [FAdd (dconst f64_one) e]))
      else if objective \<in> set [''poisson'', ''gamma'', ''tweedie''] then
        Inr (Call llvm_exp [input])
      else if objective \<in> set [''regression'', ''regression_l1'', ''huber'', ''fair'',
                                ''quantile'', ''mape''] then
        (if objective_config \<noteq> [] \<and> py_in ''sqrt'' objective_config then
           Inr (Call llvm_copysign [FMul input input, input])
         else Inr input)
      else if objective \<in> set [''lambdarank'', ''rank_xendcg'', ''custom''] then
        Inr input
      else Inl (ValueError_objective objective))"

subsection \<open>The forest function\<close>

text \<open>
  The arguments of the tree functions: one load per feature from
  \<open>data[loop_iter * n_args + i]\<close>, cast to \<open>i32\<close> where the feature is categorical.
\<close>

definition forest_args :: "Forest \<Rightarrow> val \<Rightarrow> val \<Rightarrow> val list" where
  "forest_args forest data_arr loop_iter_reg =
     (let n_args_c = Constant INT_T (PyInt (int (n_args forest)));
          iter_mul_nargs = Mul loop_iter_reg n_args_c;
          idx = map (\<lambda>i. Add iter_mul_nargs (iconst (int i))) [0 ..< n_args forest];
          raw_ptrs = map (\<lambda>c. Gep data_arr [c]) idx
      in map (\<lambda>(feature, ptr).
                let el = Load ptr
                in if feature_is_categorical feature then FPToSI el INT_CAT else el)
           (zip (features forest) raw_ptrs))"

text \<open>The sum of the tree results: \<open>res = call(tree_funcs[0]); res = fadd(call(func), res)\<close>.\<close>

definition forest_sum :: "callee list \<Rightarrow> val list \<Rightarrow> error + val" where
  "forest_sum tree_funcs args =
     (case tree_funcs of
        [] \<Rightarrow> Inl IndexError
      | f0 # fs \<Rightarrow> Inr (foldl (\<lambda>res func. FAdd (Call func args) res) (Call f0 args) fs))"

definition populate_forest_func ::
  "(string \<Rightarrow> f64 option) \<Rightarrow> Forest \<Rightarrow> ir_function \<Rightarrow> callee list \<Rightarrow> error + ir_function" where
  "populate_forest_func py_float forest root_func tree_funcs =
     (let data_arr = Argument 0 DOUBLE_PTR;
          out_arr = Argument 1 DOUBLE_PTR;
          start_index = Argument 2 INT_T;
          end_index = Argument 3 INT_T;
          (setup_block, f1) = append_basic_block root_func ''setup'';
          loop_iter = Alloca INT_T 1 ''loop-idx'';
          f2 = emit f1 setup_block (Store start_index loop_iter);
          (condition_block, f3) = append_basic_block f2 ''loop-condition'';
          f4 = emit f3 setup_block (Branch condition_block);
          cond = ICmpSigned ''<'' (Load loop_iter) end_index;
          (core_block, f5) = append_basic_block f4 ''loop-core'';
          (term_block, f6) = append_basic_block f5 ''term'';
          f7 = emit f6 condition_block (CBranch cond core_block term_block);
          loop_iter_reg = Load loop_iter;
          args = forest_args forest data_arr loop_iter_reg
      in case forest_sum tree_funcs args of
           Inl e \<Rightarrow> Inl e
         | Inr res \<Rightarrow>
             let ptr = Gep out_arr [loop_iter_reg]
             in case populate_objective_func_block py_float res (objective_func forest)
                       (objective_func_config forest) of
                  Inl e \<Rightarrow> Inl e
                | Inr res' \<Rightarrow>
                    let f8 = emit f7 core_block (Store res' ptr);
                        tmpp1 = Add loop_iter_reg (iconst 1);
                        f9 = emit f8 core_block (Store tmpp1 loop_iter);
                        f10 = emit f9 core_block (Branch condition_block)
                    in Inr (emit f10 term_block RetVoid))"

subsection \<open>The module\<close>

text \<open>
  \<open>make_tree\<close> declares the function of a tree in the module and fills it; the types of its
  parameters come from the features of the tree.
\<close>

definition make_tree :: "Tree \<Rightarrow> ir_module \<Rightarrow> error + (callee \<times> ir_module)" where
  "make_tree tree module =
     (let func_dtypes = map (\<lambda>f. if feature_is_categorical f then INT_CAT else DOUBLE)
                          (tree_features tree);
          tree_func = new_function DOUBLE func_dtypes (str_tree tree)
      in case gen_tree tree tree_func of
           Inl e \<Rightarrow> Inl e
         | Inr tree_func' \<Rightarrow>
             Inr (FunctionRef (length (mod_functions module)),
                  module\<lparr>mod_functions := mod_functions module @ [tree_func']\<rparr>))"

fun make_trees :: "Tree list \<Rightarrow> ir_module \<Rightarrow> error + (callee list \<times> ir_module)" where
  "make_trees [] module = Inr ([], module)"
| "make_trees (tree # ts) module =
     (case make_tree tree module of
        Inl e \<Rightarrow> Inl e
      | Inr (f, module1) \<Rightarrow>
          (case make_trees ts module1 of
             Inl e \<Rightarrow> Inl e
           | Inr (fs, module2) \<Rightarrow> Inr (f # fs, module2)))"

text \<open>
  \<open>gen_forest\<close>: \<open>forest_root\<close> is the first function added to the module, the tree functions
  follow in the order of \<open>forest.trees\<close>, and \<open>forest_root\<close> is filled last.
\<close>

definition gen_forest :: "(string \<Rightarrow> f64 option) \<Rightarrow> Forest \<Rightarrow> ir_module \<Rightarrow> error + ir_module" where
  "gen_forest py_float forest module =
     (let root_idx = length (mod_functions module);
          root_func = new_function VoidType [DOUBLE_PTR, DOUBLE_PTR, INT_T, INT_T] ''forest_root'';
          module1 = module\<lparr>mod_functions := mod_functions module @ [root_func]\<rparr>
      in case make_trees (trees forest) module1 of
           Inl e \<Rightarrow> Inl e
         | Inr (tree_funcs, module2) \<Rightarrow>
             (case populate_forest_func py_float forest root_func tree_funcs of
                Inl e \<Rightarrow> Inl e
              | Inr root_func' \<Rightarrow>
                  Inr (declare_intrinsics
                         (module2\<lparr>mod_functions := (mod_functions module2)[root_idx := root_func']\<rparr>))))"

section \<open>The meaning of the generated IR\<close>

text \<open>
  Run-time values: an \<open>i1\<close>, an \<open>i32\<close>, a floating-point number, a pointer into the caller's
  memory (an address counted in doubles), the address of a stack slot made by \<open>alloca\<close>, and a
  vector of \<open>i32\<close>. The memory holds the doubles of the caller's buffers and the \<open>i32\<close> stack
  slots of the running function.
\<close>

datatype rtval =
    VBool bool
  | VInt "32 word"
  | VDouble f64
  | VPtr int
  | VSlot string
  | VVec "32 word list"

record memory =
  heap :: "int \<Rightarrow> f64"
  slots :: "string \<Rightarrow> 32 word"

fun rt_has_type :: "rtval \<Rightarrow> ir_type \<Rightarrow> bool" where
  "rt_has_type (VBool b) ty = (ty = IntType 1)"
| "rt_has_type (VInt w) ty = (ty = IntType 32)"
| "rt_has_type (VDouble x) ty = (ty = DoubleType)"
| "rt_has_type (VPtr a) ty = (ty = PointerType DoubleType)"
| "rt_has_type (VSlot n) ty = (ty = PointerType (IntType 32))"
| "rt_has_type (VVec ws) ty = (ty = VectorType (IntType 32) (length ws))"

text \<open>
  A constant of type \<open>float\<close> stands for a single-precision number. llvmlite writes an
  instruction with the type of its left operand and a floating-point constant as the
  hexadecimal form of its value, so that such a constant, next to a \<open>double\<close>, is read as the
  double of the same value. Only values that single precision holds exactly are given a
  meaning here.
\<close>

definition f32_exact :: "f64 \<Rightarrow> bool" where
  "f32_exact x =
     (take_bit 29 x = 0
      \<and> (is_zero x \<or> f64_exp x = 2047 \<or> (897 \<le> f64_exp x \<and> f64_exp x \<le> 1150)))"

definition eval_const :: "ir_type \<Rightarrow> pyconst \<Rightarrow> rtval option" where
  "eval_const ty c =
     (case c of
        PyInt i \<Rightarrow>
          (if ty = IntType 32 then Some (VInt (word_of_int i))
           else if ty = IntType 1 then Some (VBool (odd i))
           else None)
      | PyFloat x \<Rightarrow>
          (if ty = DoubleType then Some (VDouble x)
           else if ty = FloatType \<and> f32_exact x then Some (VDouble x)
           else None))"

text \<open>
  Operations on two \<open>i32\<close>, two doubles or two \<open>i1\<close>; operands of another kind have no
  meaning.
\<close>

definition on_ints :: "(32 word \<Rightarrow> 32 word \<Rightarrow> rtval option) \<Rightarrow> rtval \<Rightarrow> rtval \<Rightarrow> rtval option" where
  "on_ints f x y =
     (case x of VInt a \<Rightarrow> (case y of VInt b \<Rightarrow> f a b | _ \<Rightarrow> None) | _ \<Rightarrow> None)"

definition on_doubles :: "(f64 \<Rightarrow> f64 \<Rightarrow> rtval option) \<Rightarrow> rtval \<Rightarrow> rtval \<Rightarrow> rtval option" where
  "on_doubles f x y =
     (case x of VDouble a \<Rightarrow> (case y of VDouble b \<Rightarrow> f a b | _ \<Rightarrow> None) | _ \<Rightarrow> None)"

definition on_bools :: "(bool \<Rightarrow> bool \<Rightarrow> rtval option) \<Rightarrow> rtval \<Rightarrow> rtval \<Rightarrow> rtval option" where
  "on_bools f x y =
     (case x of VBool a \<Rightarrow> (case y of VBool b \<Rightarrow> f a b | _ \<Rightarrow> None) | _ \<Rightarrow> None)"

text \<open>
  Integer division by zero and a shift by 32 or more have no defined result.
\<close>

fun eval_binop :: "fp_ops \<Rightarrow> binop \<Rightarrow> rtval \<Rightarrow> rtval \<Rightarrow> rtval option" where
  "eval_binop ops OpAdd x y = on_ints (\<lambda>a b. Some (VInt (a + b))) x y"
| "eval_binop ops OpMul x y = on_ints (\<lambda>a b. Some (VInt (a * b))) x y"
| "eval_binop ops OpUDiv x y =
     on_ints (\<lambda>a b. if b = 0 then None else Some (VInt (a div b))) x y"
| "eval_binop ops OpURem x y =
     on_ints (\<lambda>a b. if b = 0 then None else Some (VInt (a mod b))) x y"
| "eval_binop ops OpLShr x y =
     on_ints (\<lambda>a b. if unat b < 32 then Some (VInt (drop_bit (unat b) a)) else None) x y"
| "eval_binop ops OpFAdd x y = on_doubles (\<lambda>a b. Some (VDouble (op_fadd ops a b))) x y"
| "eval_binop ops OpFMul x y = on_doubles (\<lambda>a b. Some (VDouble (f64_mul ops a b))) x y"
| "eval_binop ops OpFDiv x y = on_doubles (\<lambda>a b. Some (VDouble (op_fdiv ops a b))) x y"
| "eval_binop ops OpOr x y = on_bools (\<lambda>a b. Some (VBool (a \<or> b))) x y"

fun eval_cmp :: "cmp_kind \<Rightarrow> string \<Rightarrow> rtval \<Rightarrow> rtval \<Rightarrow> rtval option" where
  "eval_cmp Signed cmpop x y =
     on_ints (\<lambda>a b. map_option (\<lambda>r. VBool (r (sint a) (sint b))) (cmp_key cmpop)) x y"
| "eval_cmp Unsigned cmpop x y =
     on_ints (\<lambda>a b. map_option (\<lambda>r. VBool (r (uint a) (uint b))) (cmp_key cmpop)) x y"
| "eval_cmp Ordered cmpop x y =
     on_doubles (\<lambda>a b. map_option VBool (f64_cmp_ordered cmpop a b)) x y"
| "eval_cmp Unordered cmpop x y =
     on_doubles (\<lambda>a b. map_option VBool (f64_cmp_unordered cmpop a b)) x y"

fun eval_cast :: "castop \<Rightarrow> rtval \<Rightarrow> ir_type \<Rightarrow> rtval option" where
  "eval_cast OpTrunc x ty =
     (case x of VInt a \<Rightarrow> (if ty = IntType 1 then Some (VBool (bit a 0)) else None)
      | _ \<Rightarrow> None)"
| "eval_cast OpFPToSI x ty =
     (case x of VDouble a \<Rightarrow> (if ty = IntType 32 then Some (VInt (fptosi a)) else None)
      | _ \<Rightarrow> None)"

definition eval_intrinsic :: "fp_ops \<Rightarrow> string \<Rightarrow> rtval list \<Rightarrow> rtval option" where
  "eval_intrinsic ops name vs =
     (if name = ''llvm.exp'' \<and> length vs = 1 then
        (case hd vs of VDouble x \<Rightarrow> Some (VDouble (op_exp ops x)) | _ \<Rightarrow> None)
      else if name = ''llvm.log'' \<and> length vs = 1 then
        (case hd vs of VDouble x \<Rightarrow> Some (VDouble (op_log ops x)) | _ \<Rightarrow> None)
      else if name = ''llvm.copysign'' \<and> length vs = 2 then
        on_doubles (\<lambda>x y. Some (VDouble (f64_copysign x y))) (vs ! 0) (vs ! 1)
      else None)"

fun vec_of :: "rtval list \<Rightarrow> 32 word list option" where
  "vec_of [] = Some []"
| "vec_of (v # vs) =
     (case v of VInt w \<Rightarrow> map_option (\<lambda>ws. w # ws) (vec_of vs) | _ \<Rightarrow> None)"

text \<open>
  \<open>eval ops call_fn args m v\<close> is the value of \<open>v\<close> in a function called with \<open>args\<close> and
  memory \<open>m\<close>; \<open>call_fn k vs m\<close> is the result of calling function \<open>k\<close> of the module with
  arguments \<open>vs\<close>. A \<open>getelementptr\<close> with an \<open>i32\<close> index sign-extends the index.
\<close>

fun eval ::
  "fp_ops \<Rightarrow> (nat \<Rightarrow> rtval list \<Rightarrow> memory \<Rightarrow> rtval option) \<Rightarrow> rtval list \<Rightarrow> memory \<Rightarrow> val
     \<Rightarrow> rtval option" where
  "eval ops call_fn args m (Argument i ty) =
     (if i < length args \<and> rt_has_type (args ! i) ty then Some (args ! i) else None)"
| "eval ops call_fn args m (Constant ty c) = eval_const ty c"
| "eval ops call_fn args m (ConstantVec ty vs) =
     (case those (map (eval ops call_fn args m) vs) of
        None \<Rightarrow> None
      | Some xs \<Rightarrow> (if ty = VectorType (IntType 32) (length vs) then map_option VVec (vec_of xs)
                   else None))"
| "eval ops call_fn args m (Alloca ty n name) =
     (if ty = IntType 32 \<and> n = 1 then Some (VSlot name) else None)"
| "eval ops call_fn args m (Load p) =
     (case eval ops call_fn args m p of
        None \<Rightarrow> None
      | Some x \<Rightarrow>
          (case x of
             VPtr a \<Rightarrow> Some (VDouble (heap m a))
           | VSlot n \<Rightarrow> Some (VInt (slots m n))
           | _ \<Rightarrow> None))"
| "eval ops call_fn args m (Gep p ixs) =
     (case eval ops call_fn args m p of
        None \<Rightarrow> None
      | Some x \<Rightarrow>
          (case those (map (eval ops call_fn args m) ixs) of
             None \<Rightarrow> None
           | Some ys \<Rightarrow>
               (if length ys = 1 then
                  (case x of
                     VPtr a \<Rightarrow> (case hd ys of VInt i \<Rightarrow> Some (VPtr (a + sint i)) | _ \<Rightarrow> None)
                   | _ \<Rightarrow> None)
                else None)))"
| "eval ops call_fn args m (BinOp opr a b) =
     (case eval ops call_fn args m a of
        None \<Rightarrow> None
      | Some x \<Rightarrow>
          (case eval ops call_fn args m b of
             None \<Rightarrow> None
           | Some y \<Rightarrow> eval_binop ops opr x y))"
| "eval ops call_fn args m (Cmp k cmpop a b) =
     (case eval ops call_fn args m a of
        None \<Rightarrow> None
      | Some x \<Rightarrow>
          (case eval ops call_fn args m b of
             None \<Rightarrow> None
           | Some y \<Rightarrow> eval_cmp k cmpop x y))"
| "eval ops call_fn args m (Not a) =
     (case eval ops call_fn args m a of
        None \<Rightarrow> None
      | Some x \<Rightarrow> (case x of VBool b \<Rightarrow> Some (VBool (\<not> b)) | _ \<Rightarrow> None))"
| "eval ops call_fn args m (Cast c a ty) =
     (case eval ops call_fn args m a of
        None \<Rightarrow> None
      | Some x \<Rightarrow> eval_cast c x ty)"
| "eval ops call_fn args m (ExtractElement v i) =
     (case eval ops call_fn args m v of
        None \<Rightarrow> None
      | Some x \<Rightarrow>
          (case eval ops call_fn args m i of
             None \<Rightarrow> None
           | Some y \<Rightarrow>
               (case x of
                  VVec ws \<Rightarrow>
                    (case y of
                       VInt k \<Rightarrow> (if unat k < length ws then Some (VInt (ws ! unat k)) else None)
                     | _ \<Rightarrow> None)
                | _ \<Rightarrow> None)))"
| "eval ops call_fn args m (Select c a b) =
     (case eval ops call_fn args m c of
        None \<Rightarrow> None
      | Some t \<Rightarrow>
          (case eval ops call_fn args m a of
             None \<Rightarrow> None
           | Some x \<Rightarrow>
               (case eval ops call_fn args m b of
                  None \<Rightarrow> None
                | Some y \<Rightarrow> (case t of VBool tb \<Rightarrow> Some (if tb then x else y) | _ \<Rightarrow> None))))"
| "eval ops call_fn args m (Call f vs) =
     (case those (map (eval ops call_fn args m) vs) of
        None \<Rightarrow> None
      | Some xs \<Rightarrow>
          (case f of
             FunctionRef k \<Rightarrow> call_fn k xs m
           | IntrinsicRef name \<Rightarrow> eval_intrinsic ops name xs))"

text \<open>
  A block runs its instructions in order, up to the one that ends it: the outcome is a jump
  to another block or the return from the function. A block without a terminator has no
  meaning.
\<close>

datatype outcome = Jump nat | Return "rtval option"

text \<open>A store writes a double through a pointer or an \<open>i32\<close> into a stack slot.\<close>

definition store :: "rtval \<Rightarrow> rtval \<Rightarrow> memory \<Rightarrow> memory option" where
  "store x p m =
     (case p of
        VPtr a \<Rightarrow> (case x of VDouble d \<Rightarrow> Some (m\<lparr>heap := (heap m)(a := d)\<rparr>) | _ \<Rightarrow> None)
      | VSlot n \<Rightarrow> (case x of VInt w \<Rightarrow> Some (m\<lparr>slots := (slots m)(n := w)\<rparr>) | _ \<Rightarrow> None)
      | _ \<Rightarrow> None)"

fun exec_block ::
  "fp_ops \<Rightarrow> (nat \<Rightarrow> rtval list \<Rightarrow> memory \<Rightarrow> rtval option) \<Rightarrow> rtval list \<Rightarrow> instr list \<Rightarrow> memory
     \<Rightarrow> (outcome \<times> memory) option" where
  "exec_block ops call_fn args [] m = None"
| "exec_block ops call_fn args (Store v p # rest) m =
     (case eval ops call_fn args m v of
        None \<Rightarrow> None
      | Some x \<Rightarrow>
          (case eval ops call_fn args m p of
             None \<Rightarrow> None
           | Some q \<Rightarrow>
               (case store x q m of
                  None \<Rightarrow> None
                | Some m' \<Rightarrow> exec_block ops call_fn args rest m')))"
| "exec_block ops call_fn args (Ret v # rest) m =
     (case eval ops call_fn args m v of
        None \<Rightarrow> None
      | Some x \<Rightarrow> Some (Return (Some x), m))"
| "exec_block ops call_fn args (RetVoid # rest) m = Some (Return None, m)"
| "exec_block ops call_fn args (Branch b # rest) m = Some (Jump b, m)"
| "exec_block ops call_fn args (CBranch c bt bf # rest) m =
     (case eval ops call_fn args m c of
        None \<Rightarrow> None
      | Some x \<Rightarrow> (case x of VBool t \<Rightarrow> Some (Jump (if t then bt else bf), m) | _ \<Rightarrow> None))"

text \<open>
  Running a function from block \<open>b\<close>. The generated \<open>forest_root\<close> has a loop, so running may
  in general not end: the result is then \<open>None\<close>, as for a run that goes wrong.
\<close>

partial_function (option) run_blocks ::
  "fp_ops \<Rightarrow> (nat \<Rightarrow> rtval list \<Rightarrow> memory \<Rightarrow> rtval option) \<Rightarrow> rtval list \<Rightarrow> ir_function \<Rightarrow> nat
     \<Rightarrow> memory \<Rightarrow> (rtval option \<times> memory) option" where
  "run_blocks ops call_fn args func b m =
     (if b < length (fn_blocks func) then
        (case exec_block ops call_fn args (fn_blocks func ! b) m of
           None \<Rightarrow> None
         | Some (oc, m') \<Rightarrow>
             (case oc of
                Jump b' \<Rightarrow> run_blocks ops call_fn args func b' m'
              | Return r \<Rightarrow> Some (r, m')))
      else None)"

text \<open>
  Calling a function: the arguments must have the types of the parameters, and running
  starts at the first block. The functions that the generated code calls are the tree
  functions: they call no function of the module and write no memory, and a call yields the
  value they return.
\<close>

definition args_have_types :: "rtval list \<Rightarrow> ir_type list \<Rightarrow> bool" where
  "args_have_types vs tys = (length vs = length tys \<and> list_all (\<lambda>(v, ty). rt_has_type v ty) (zip vs tys))"

definition run_function ::
  "fp_ops \<Rightarrow> (nat \<Rightarrow> rtval list \<Rightarrow> memory \<Rightarrow> rtval option) \<Rightarrow> ir_function \<Rightarrow> rtval list \<Rightarrow> memory
     \<Rightarrow> (rtval option \<times> memory) option" where
  "run_function ops call_fn func args m =
     (if args_have_types args (fn_args func) then run_blocks ops call_fn args func 0 m else None)"

definition no_calls :: "nat \<Rightarrow> rtval list \<Rightarrow> memory \<Rightarrow> rtval option" where
  "no_calls k vs m = None"

definition call_tree :: "fp_ops \<Rightarrow> ir_module \<Rightarrow> nat \<Rightarrow> rtval list \<Rightarrow> memory \<Rightarrow> rtval option" where
  "call_tree ops module k vs m =
     (if k < length (mod_functions module) then
        (case run_function ops no_calls (mod_functions module ! k) vs m of
           None \<Rightarrow> None
         | Some (r, m') \<Rightarrow> r)
      else None)"

section \<open>Definitions used to state the properties\<close>

subsection \<open>Objective functions\<close>

text \<open>The objectives that the generator implements.\<close>

definition objectives :: "string list" where
  "objectives =
     [''binary'', ''xentropy'', ''cross_entropy'', ''xentlambda'', ''cross_entropy_lambda'',
      ''poisson'', ''gamma'', ''tweedie'', ''regression'', ''regression_l1'', ''huber'', ''fair'',
      ''quantile'', ''mape'', ''lambdarank'', ''rank_xendcg'', ''custom'']"

text \<open>
  The transform of each objective as the specification gives it, on doubles: the sigmoid
  \<open>1 / (1 + exp(- alpha * x))\<close>, \<open>log(1 + exp(x))\<close>, \<open>exp(x)\<close>, \<open>copysign(x * x, x)\<close> and the
  identity.
\<close>

definition sigmoid :: "fp_ops \<Rightarrow> f64 \<Rightarrow> f64 \<Rightarrow> f64" where
  "sigmoid ops alpha x =
     op_fdiv ops f64_one (op_fadd ops f64_one (op_exp ops (f64_mul ops (f64_neg alpha) x)))"

definition objective_transform :: "fp_ops \<Rightarrow> f64 \<Rightarrow> string \<Rightarrow> string \<Rightarrow> f64 \<Rightarrow> f64" where
  "objective_transform ops alpha objective cfg x =
     (if objective = ''binary'' then sigmoid ops alpha x
      else if objective = ''xentropy'' \<or> objective = ''cross_entropy'' then sigmoid ops f64_one x
      else if objective = ''xentlambda'' \<or> objective = ''cross_entropy_lambda'' then
        op_log ops (op_fadd ops f64_one (op_exp ops x))
      else if objective = ''poisson'' \<or> objective = ''gamma'' \<or> objective = ''tweedie'' then
        op_exp ops x
      else if objective = ''regression'' \<or> objective = ''regression_l1'' \<or> objective = ''huber''
              \<or> objective = ''fair'' \<or> objective = ''quantile'' \<or> objective = ''mape'' then
        (if py_in ''sqrt'' cfg then f64_copysign (f64_mul ops x x) x else x)
      else x)"

text \<open>The doubles \<open>-4.0\<close>, \<open>-16.0\<close> and \<open>-1.0\<close>.\<close>

definition f64_minus_four :: f64 where "f64_minus_four = 0xC010000000000000"
definition f64_minus_sixteen :: f64 where "f64_minus_sixteen = 0xC030000000000000"
definition f64_minus_one :: f64 where "f64_minus_one = 0xBFF0000000000000"

subsection \<open>Types of values\<close>











subsection \<open>Numerical nodes\<close>

text \<open>
  The direction a missing value takes at a numerical node: for \<open>MNone\<close> the flag of the node
  is replaced by \<open>0.0 <= threshold\<close>.
\<close>

definition effective_default_left :: "DecisionType \<Rightarrow> f64 \<Rightarrow> bool" where
  "effective_default_left dt t =
     (if missing_type dt = MNone then py_le f64_pos_zero t else is_default_left dt)"

text \<open>
  A numerical node with missing type \<open>MZero\<close>, \<open>default_left\<close> and threshold \<open>-1.0\<close>, and a
  function with one double parameter.
\<close>

definition mzero_left_node :: node where
  "mzero_left_node =
     DecisionNode 0 0 f64_minus_one
       \<lparr>is_categorical = False, is_default_left = True, missing_type = MZero\<rparr> None
       (Some (LeafNode 0 f64_one)) (Some (LeafNode 1 f64_minus_one))"

definition one_double_func :: ir_function where
  "one_double_func = new_function DOUBLE [DOUBLE] ''tree_0''"

subsection \<open>Fused and un-fused double-leaf nodes\<close>

text \<open>
  The un-fused form of a decision node: the branch of \<open>_gen_decision_node\<close> that is taken
  when \<open>is_fused_double_leaf_node\<close> is false, applied to any decision node.
\<close>

definition gen_decision_node_unfused :: "ir_function \<Rightarrow> nat \<Rightarrow> node \<Rightarrow> error + ir_function" where
  "gen_decision_node_unfused func node_block node =
     (case child_blocks func False (is_categorical (decision_type node)) (left node) (right node) of
        (left_block, right_block, func1) \<Rightarrow>
          (case populate_node_block func1 node_block node right_block of
             Inl e \<Rightarrow> Inl e
           | Inr (func2, builder, cond) \<Rightarrow>
               (case gen_node
                       (emit func2 builder
                          (terminal_statement False cond (left node) (right node)
                             left_block right_block))
                       (the left_block) (left node) of
                  Inl e \<Rightarrow> Inl e
                | Inr func4 \<Rightarrow> gen_node func4 (the right_block) (right node))))"

text \<open>
  The two comparisons of a categorical node on the value \<open>v\<close> and the bitset \<open>cat_thr\<close>: the
  range check of the node block and the membership test of the bitset-compare block.
\<close>

definition cat_range_check :: "val \<Rightarrow> int list \<Rightarrow> val" where
  "cat_range_check v cat_thr = ICmpUnsigned ''<'' v (iconst (32 * int (length cat_thr)))"

definition cat_bitset_test :: "val \<Rightarrow> int list \<Rightarrow> val" where
  "cat_bitset_test v cat_thr =
     Trunc (LShr (ExtractElement
                    (ConstantVec (VectorType INT_T (length cat_thr))
                       (map (\<lambda>i. Constant INT_T (PyInt i)) cat_thr))
                    (UDiv v (iconst 32)))
                 (URem v (iconst 32)))
           BOOL"

text \<open>
  The stub of the specification's first scenario: a numerical node on feature 0 with threshold
  \<open>0.5\<close>, missing type \<open>MNaN\<close> and \<open>default_left\<close>, with leaves \<open>1.0\<close> and \<open>-1.0\<close>; and a function
  with one double parameter and one empty block.
\<close>

definition f64_half :: f64 where "f64_half = 0x3FE0000000000000"

definition stub_node :: node where
  "stub_node =
     DecisionNode 0 0 f64_half
       \<lparr>is_categorical = False, is_default_left = True, missing_type = MNaN\<rparr> None
       (Some (LeafNode 0 f64_one)) (Some (LeafNode 1 f64_minus_one))"

definition one_block_func :: ir_function where
  "one_block_func = snd (append_basic_block one_double_func ''node_0'')"

subsection \<open>A forest of one leaf\<close>

text \<open>
  A forest with one tree, whose root is a leaf of value \<open>1.0\<close>, and no feature; an empty
  module; and a \<open>float\<close> that reads the strings \<open>1.0\<close> and \<open>0\<close>.
\<close>

definition leaf_tree :: Tree where
  "leaf_tree =
     \<lparr>tree_idx = 0, root_node = Some (LeafNode 0 f64_one), tree_features = [], class_id = 0\<rparr>"

definition leaf_forest :: "string \<Rightarrow> string \<Rightarrow> Forest" where
  "leaf_forest objective cfg =
     \<lparr>trees = [leaf_tree], features = [], n_classes = 1, objective_func = objective,
      objective_func_config = cfg\<rparr>"

definition empty_module :: ir_module where
  "empty_module = \<lparr>mod_functions = [], mod_intrinsics = []\<rparr>"

definition float_of :: "string \<Rightarrow> f64 option" where
  "float_of s =
     (if s = ''1.0'' then Some f64_one else if s = ''0'' then Some f64_pos_zero else None)"

section \<open>Validation\<close>





section \<open>Objective functions\<close>

lemma one_not_le_zero: "\<not> py_le f64_one f64_pos_zero"
  by (simp add: py_le_def f64_one_def f64_pos_zero_def f64_key_def f64_sign_def f64_mag_def
      is_nan_def f64_inf_mag_def)

lemma zero_le_zero: "py_le f64_pos_zero f64_pos_zero"
  by (simp add: py_le_def f64_pos_zero_def f64_key_def f64_sign_def f64_mag_def
      is_nan_def f64_inf_mag_def)

lemma py_in_nonempty: "py_in ''sqrt'' cfg \<Longrightarrow> cfg \<noteq> []"
  by (cases cfg) auto

lemma populate_objective_func_block_unfold:
  "populate_objective_func_block py_float input objective cfg =
     (if objective = ''binary'' then
        (case py_index (split_on CHR '':'' cfg) 1 of
           Inl e \<Rightarrow> Inl e
         | Inr alpha \<Rightarrow>
             (case py_float alpha of
                None \<Rightarrow> Inl (ValueError_float alpha)
              | Some a \<Rightarrow> populate_sigmoid input a))
      else if objective = ''xentropy'' \<or> objective = ''cross_entropy'' then
        populate_sigmoid input f64_one
      else if objective = ''xentlambda'' \<or> objective = ''cross_entropy_lambda'' then
        Inr (Call llvm_log [FAdd (dconst f64_one) (Call llvm_exp [input])])
      else if objective = ''poisson'' \<or> objective = ''gamma'' \<or> objective = ''tweedie'' then
        Inr (Call llvm_exp [input])
      else if objective = ''regression'' \<or> objective = ''regression_l1'' \<or> objective = ''huber''
              \<or> objective = ''fair'' \<or> objective = ''quantile'' \<or> objective = ''mape'' then
        (if py_in ''sqrt'' cfg then Inr (Call llvm_copysign [FMul input input, input])
         else Inr input)
      else if objective = ''lambdarank'' \<or> objective = ''rank_xendcg'' \<or> objective = ''custom'' then
        Inr input
      else Inl (ValueError_objective objective))"
proof -
  have "(cfg \<noteq> [] \<and> py_in ''sqrt'' cfg) = py_in ''sqrt'' cfg"
    using py_in_nonempty by blast
  then show ?thesis
    unfolding populate_objective_func_block_def Let_def by simp
qed

text \<open>
  The objectives other than \<open>binary\<close>: an implemented one is lowered without an error, any
  other raises the \<open>ValueError\<close> of the last branch.
\<close>

lemma objective_not_binary:
  assumes "objective \<noteq> ''binary''"
  shows "(objective \<in> set objectives \<longrightarrow>
            (\<exists>v. populate_objective_func_block py_float input objective cfg = Inr v))
         \<and> (objective \<notin> set objectives \<longrightarrow>
              populate_objective_func_block py_float input objective cfg
                = Inl (ValueError_objective objective))"
  using assms
  by (simp add: populate_objective_func_block_def objectives_def populate_sigmoid_def Let_def
      one_not_le_zero)

lemma objective_binary:
  "populate_objective_func_block py_float input ''binary'' cfg =
     (case py_index (split_on CHR '':'' cfg) 1 of
        Inl e \<Rightarrow> Inl e
      | Inr a \<Rightarrow>
          (case py_float a of
             None \<Rightarrow> Inl (ValueError_float a)
           | Some alpha \<Rightarrow>
               if py_le alpha f64_pos_zero then Inl (ValueError_sigmoid alpha)
               else Inr (FDiv (dconst f64_one)
                           (FAdd (dconst f64_one)
                              (Call llvm_exp [FMul (dconst (f64_neg alpha)) input])))))"
  by (simp add: populate_objective_func_block_def populate_sigmoid_def Let_def
      split: sum.splits option.splits)

lemma py_index_error: "py_index xs i = Inl e \<Longrightarrow> e = IndexError"
  by (simp add: py_index_def split: if_splits)

text \<open>An error of the lowering of the objective does not depend on the accumulator.\<close>

lemma objective_error_input:
  assumes "populate_objective_func_block py_float input objective cfg = Inl e"
  shows "populate_objective_func_block py_float input' objective cfg = Inl e"
proof (cases "objective = ''binary''")
  case True
  with assms show ?thesis
    by (auto simp: objective_binary split: sum.splits option.splits if_splits)
next
  case False
  from objective_not_binary [OF False, of py_float input cfg]
       objective_not_binary [OF False, of py_float input' cfg] assms
  show ?thesis by (cases "objective \<in> set objectives") auto
qed

lemma objective_success_input:
  assumes "populate_objective_func_block py_float input objective cfg = Inr v"
  shows "\<exists>v'. populate_objective_func_block py_float input' objective cfg = Inr v'"
proof (cases "populate_objective_func_block py_float input' objective cfg")
  case (Inl e)
  from objective_error_input [OF this, of input] assms show ?thesis by simp
next
  case (Inr v')
  then show ?thesis by blast
qed

lemma forest_sum_nonempty: "tfs \<noteq> [] \<Longrightarrow> \<exists>res. forest_sum tfs args = Inr res"
  by (cases tfs) (simp_all add: forest_sum_def)

text \<open>
  An error of the lowering of the objective is the error of \<open>gen_forest\<close>, once the trees
  have been generated; and when the objective is lowered, \<open>gen_forest\<close> returns.
\<close>

lemma gen_forest_objective:
  assumes mt: "make_trees (trees forest)
                 (module\<lparr>mod_functions := mod_functions module
                     @ [new_function VoidType [DOUBLE_PTR, DOUBLE_PTR, INT_T, INT_T] ''forest_root'']\<rparr>)
               = Inr (tfs, module2)"
    and ne: "tfs \<noteq> []"
  shows "case populate_objective_func_block py_float input (objective_func forest)
                (objective_func_config forest) of
           Inl e \<Rightarrow> gen_forest py_float forest module = Inl e
         | Inr v \<Rightarrow> (\<exists>module'. gen_forest py_float forest module = Inr module')"
proof -
  let ?args = "forest_args forest (Argument 0 DOUBLE_PTR) (Load (Alloca INT_T 1 ''loop-idx''))"
  from forest_sum_nonempty [OF ne] obtain res where res: "forest_sum tfs ?args = Inr res"
    by blast
  show ?thesis
  proof (cases "populate_objective_func_block py_float input (objective_func forest)
                  (objective_func_config forest)")
    case (Inl e)
    from objective_error_input [OF this, of res]
    have "populate_objective_func_block py_float res (objective_func forest)
            (objective_func_config forest) = Inl e" .
    then have "gen_forest py_float forest module = Inl e"
      using mt res by (simp add: gen_forest_def populate_forest_func_def Let_def split_beta)
    with Inl show ?thesis by simp
  next
    case (Inr v)
    from objective_success_input [OF this, of res] obtain v'
      where "populate_objective_func_block py_float res (objective_func forest)
            (objective_func_config forest) = Inr v'" by blast
    then have "\<exists>module'. gen_forest py_float forest module = Inr module'"
      using mt res by (simp add: gen_forest_def populate_forest_func_def Let_def split_beta)
    with Inr show ?thesis by simp
  qed
qed

text \<open>
  C7, as stated: lowering the objective raises exactly when the sigmoid parameter is
  \<open><= 0\<close> or the objective is not an implemented one. The objective \<open>binary\<close> also raises when
  its configuration has no \<open>:\<close> (\<open>IndexError\<close> of \<open>split(":")[1]\<close>), and when \<open>float\<close> rejects
  the part after the \<open>:\<close> (\<open>ValueError\<close> of \<open>float\<close>); in both cases no parameter has been
  parsed and the objective is an implemented one.
\<close>

theorem binary_config_raises:
  "''binary'' \<in> set objectives
   \<and> populate_objective_func_block (\<lambda>s. if s = ''1.0'' then Some f64_one else None)
       (Argument 0 DOUBLE) ''binary'' ''sigmoid'' = Inl IndexError
   \<and> populate_objective_func_block (\<lambda>s. if s = ''1.0'' then Some f64_one else None)
       (Argument 0 DOUBLE) ''binary'' ''sigmoid:abc'' = Inl (ValueError_float ''abc'')"
  by (simp add: objectives_def populate_objective_func_block_def py_index_def)

text \<open>
  C7, amended: lowering the objective raises exactly when the objective is \<open>binary\<close> and its
  configuration has no part after a \<open>:\<close> (\<open>IndexError\<close>), or \<open>float\<close> rejects that part
  (\<open>ValueError\<close> of \<open>float\<close>), or the parsed parameter is \<open><= 0\<close> (\<open>ValueError\<close> of
  \<open>_populate_sigmoid\<close>); or when the objective is not an implemented one (\<open>ValueError\<close>,
  objective not implemented). For \<open>xentropy\<close> and \<open>cross_entropy\<close> the parameter is \<open>1.0\<close>
  and nothing is raised. Once the trees of a forest with at least one tree have been
  generated, the error is the error of \<open>gen_forest\<close>, and \<open>gen_forest\<close> returns when there is
  none.
\<close>

theorem objective_errors:
  "((\<exists>e. populate_objective_func_block py_float input objective cfg = Inl e)
      \<longleftrightarrow> (objective = ''binary''
             \<and> (py_index (split_on CHR '':'' cfg) 1 = Inl IndexError
                \<or> (\<exists>a. py_index (split_on CHR '':'' cfg) 1 = Inr a
                        \<and> (py_float a = None
                           \<or> (\<exists>alpha. py_float a = Some alpha \<and> py_le alpha f64_pos_zero)))))
          \<or> objective \<notin> set objectives)
   \<and> (objective \<notin> set objectives \<longrightarrow>
         populate_objective_func_block py_float input objective cfg
           = Inl (ValueError_objective objective))
   \<and> (objective = ''binary'' \<and> py_index (split_on CHR '':'' cfg) 1 = Inl IndexError \<longrightarrow>
         populate_objective_func_block py_float input objective cfg = Inl IndexError)
   \<and> (\<forall>a. objective = ''binary'' \<and> py_index (split_on CHR '':'' cfg) 1 = Inr a
            \<and> py_float a = None \<longrightarrow>
         populate_objective_func_block py_float input objective cfg = Inl (ValueError_float a))
   \<and> (\<forall>a alpha. objective = ''binary'' \<and> py_index (split_on CHR '':'' cfg) 1 = Inr a
            \<and> py_float a = Some alpha \<and> py_le alpha f64_pos_zero \<longrightarrow>
         populate_objective_func_block py_float input objective cfg
           = Inl (ValueError_sigmoid alpha))
   \<and> (\<forall>forest module tfs module2.
         objective_func forest = objective \<and> objective_func_config forest = cfg
         \<and> make_trees (trees forest)
               (module\<lparr>mod_functions := mod_functions module
                   @ [new_function VoidType [DOUBLE_PTR, DOUBLE_PTR, INT_T, INT_T] ''forest_root'']\<rparr>)
             = Inr (tfs, module2)
         \<and> tfs \<noteq> [] \<longrightarrow>
         (case populate_objective_func_block py_float input objective cfg of
            Inl e \<Rightarrow> gen_forest py_float forest module = Inl e
          | Inr v \<Rightarrow> (\<exists>module'. gen_forest py_float forest module = Inr module')))"
proof -
  have surf: "\<forall>forest module tfs module2.
         objective_func forest = objective \<and> objective_func_config forest = cfg
         \<and> make_trees (trees forest)
               (module\<lparr>mod_functions := mod_functions module
                   @ [new_function VoidType [DOUBLE_PTR, DOUBLE_PTR, INT_T, INT_T] ''forest_root'']\<rparr>)
             = Inr (tfs, module2)
         \<and> tfs \<noteq> [] \<longrightarrow>
         (case populate_objective_func_block py_float input objective cfg of
            Inl e \<Rightarrow> gen_forest py_float forest module = Inl e
          | Inr v \<Rightarrow> (\<exists>module'. gen_forest py_float forest module = Inr module'))"
    using gen_forest_objective by blast
  show ?thesis
  proof (cases "objective = ''binary''")
    case True
    have b: "''binary'' \<in> set objectives" by (simp add: objectives_def)
    have main: "((\<exists>e. populate_objective_func_block py_float input objective cfg = Inl e)
      \<longleftrightarrow> (objective = ''binary''
             \<and> (py_index (split_on CHR '':'' cfg) 1 = Inl IndexError
                \<or> (\<exists>a. py_index (split_on CHR '':'' cfg) 1 = Inr a
                        \<and> (py_float a = None
                           \<or> (\<exists>alpha. py_float a = Some alpha \<and> py_le alpha f64_pos_zero)))))
          \<or> objective \<notin> set objectives)"
    proof (cases "py_index (split_on CHR '':'' cfg) 1")
      case (Inl e)
      with py_index_error [OF Inl] True b show ?thesis
        by (simp add: objective_binary)
    next
      case (Inr a)
      with True b show ?thesis
        by (cases "py_float a") (simp_all add: objective_binary)
    qed
    have rest: "populate_objective_func_block py_float input objective cfg = Inl IndexError"
      if "py_index (split_on CHR '':'' cfg) 1 = Inl IndexError"
      using that True by (simp add: objective_binary)
    have rest2: "populate_objective_func_block py_float input objective cfg
        = Inl (ValueError_float a)"
      if "py_index (split_on CHR '':'' cfg) 1 = Inr a" "py_float a = None" for a
      using that True by (simp add: objective_binary)
    have rest3: "populate_objective_func_block py_float input objective cfg
        = Inl (ValueError_sigmoid alpha)"
      if "py_index (split_on CHR '':'' cfg) 1 = Inr a" "py_float a = Some alpha"
         "py_le alpha f64_pos_zero" for a alpha
      using that True by (simp add: objective_binary)
    from main rest rest2 rest3 surf b True show ?thesis by blast
  next
    case False
    from objective_not_binary [OF False, of py_float input cfg] False surf
    show ?thesis by (cases "objective \<in> set objectives") auto
  qed
qed

lemma leaf_forest_trees:
  "\<exists>module2. make_trees (trees (leaf_forest objective cfg))
     (empty_module\<lparr>mod_functions := mod_functions empty_module
         @ [new_function VoidType [DOUBLE_PTR, DOUBLE_PTR, INT_T, INT_T] ''forest_root'']\<rparr>)
   = Inr ([FunctionRef 1], module2)"
  by (simp add: leaf_forest_def leaf_tree_def empty_module_def make_tree_def gen_tree_def
      new_function_def append_basic_block_def emit_def)

theorem objective_errors_witness:
  "gen_forest float_of (leaf_forest ''binary'' ''sigmoid:0'') empty_module
     = Inl (ValueError_sigmoid f64_pos_zero)
   \<and> gen_forest float_of (leaf_forest ''binary'' ''sigmoid'') empty_module = Inl IndexError
   \<and> gen_forest float_of (leaf_forest ''binary'' ''sigmoid:abc'') empty_module
       = Inl (ValueError_float ''abc'')
   \<and> gen_forest float_of (leaf_forest ''mse'' []) empty_module = Inl (ValueError_objective ''mse'')
   \<and> (\<exists>module'. gen_forest float_of (leaf_forest ''binary'' ''sigmoid:1.0'') empty_module
          = Inr module')
   \<and> (\<exists>module'. gen_forest float_of (leaf_forest ''regression'' []) empty_module = Inr module')"
proof -
  let ?input = "Argument 0 DOUBLE"
  let ?m1 = "empty_module\<lparr>mod_functions := mod_functions empty_module
         @ [new_function VoidType [DOUBLE_PTR, DOUBLE_PTR, INT_T, INT_T] ''forest_root'']\<rparr>"
  have p: "float_of ''0'' = Some f64_pos_zero" "float_of ''abc'' = None"
    "float_of ''1.0'' = Some f64_one"
    by (simp_all add: float_of_def)
  have o: "''mse'' \<notin> set objectives" "''regression'' \<in> set objectives"
    "''binary'' \<in> set objectives"
    by (simp_all add: objectives_def)
  have f: "objective_func (leaf_forest objective cfg) = objective"
    "objective_func_config (leaf_forest objective cfg) = cfg" for objective cfg
    by (simp_all add: leaf_forest_def)
  have surf: "case populate_objective_func_block float_of ?input objective cfg of
            Inl e \<Rightarrow> gen_forest float_of (leaf_forest objective cfg) empty_module = Inl e
          | Inr v \<Rightarrow> (\<exists>module'. gen_forest float_of (leaf_forest objective cfg) empty_module
                          = Inr module')"
    for objective cfg
  proof -
    from leaf_forest_trees [of objective cfg] obtain module2
      where t: "make_trees (trees (leaf_forest objective cfg)) ?m1
                  = Inr ([FunctionRef 1], module2)" by blast
    show ?thesis
      by (rule objective_errors [of float_of ?input objective cfg, THEN conjunct2,
            THEN conjunct2, THEN conjunct2, THEN conjunct2, THEN conjunct2, rule_format,
            of "leaf_forest objective cfg" empty_module "[FunctionRef 1]" module2])
         (simp add: t f)
  qed
  have e1: "populate_objective_func_block float_of ?input ''binary'' ''sigmoid:0''
      = Inl (ValueError_sigmoid f64_pos_zero)"
    by (rule objective_errors [THEN conjunct2, THEN conjunct2, THEN conjunct2, THEN conjunct2,
          THEN conjunct1, rule_format, of _ _ "''0''"])
       (simp add: py_index_def p zero_le_zero)
  have e2: "populate_objective_func_block float_of ?input ''binary'' ''sigmoid'' = Inl IndexError"
    by (rule objective_errors [THEN conjunct2, THEN conjunct2, THEN conjunct1, rule_format])
       (simp add: py_index_def)
  have e3: "populate_objective_func_block float_of ?input ''binary'' ''sigmoid:abc''
      = Inl (ValueError_float ''abc'')"
    by (rule objective_errors [THEN conjunct2, THEN conjunct2, THEN conjunct2, THEN conjunct1,
          rule_format])
       (simp add: py_index_def p)
  have e4: "populate_objective_func_block float_of ?input ''mse'' []
      = Inl (ValueError_objective ''mse'')"
    by (rule objective_errors [THEN conjunct2, THEN conjunct1, rule_format]) (rule o)
  have e5: "\<not> (\<exists>e. populate_objective_func_block float_of ?input ''binary'' ''sigmoid:1.0''
                  = Inl e)"
    unfolding objective_errors [of float_of ?input "''binary''" "''sigmoid:1.0''", THEN conjunct1]
    by (simp add: py_index_def p o one_not_le_zero)
  have e6: "\<not> (\<exists>e. populate_objective_func_block float_of ?input ''regression'' [] = Inl e)"
    unfolding objective_errors [of float_of ?input "''regression''" "[]", THEN conjunct1]
    by (simp add: o)
  from surf [of "''binary''" "''sigmoid:0''"] e1
  have 1: "gen_forest float_of (leaf_forest ''binary'' ''sigmoid:0'') empty_module
     = Inl (ValueError_sigmoid f64_pos_zero)" by simp
  from surf [of "''binary''" "''sigmoid''"] e2
  have 2: "gen_forest float_of (leaf_forest ''binary'' ''sigmoid'') empty_module = Inl IndexError"
    by simp
  from surf [of "''binary''" "''sigmoid:abc''"] e3
  have 3: "gen_forest float_of (leaf_forest ''binary'' ''sigmoid:abc'') empty_module
       = Inl (ValueError_float ''abc'')" by simp
  from surf [of "''mse''" "[]"] e4
  have 4: "gen_forest float_of (leaf_forest ''mse'' []) empty_module
       = Inl (ValueError_objective ''mse'')" by simp
  from surf [of "''binary''" "''sigmoid:1.0''"] e5
  have 5: "\<exists>module'. gen_forest float_of (leaf_forest ''binary'' ''sigmoid:1.0'') empty_module
          = Inr module'"
    by (cases "populate_objective_func_block float_of ?input ''binary'' ''sigmoid:1.0''") simp_all
  from surf [of "''regression''" "[]"] e6
  have 6: "\<exists>module'. gen_forest float_of (leaf_forest ''regression'' []) empty_module
          = Inr module'"
    by (cases "populate_objective_func_block float_of ?input ''regression'' []") simp_all
  from 1 2 3 4 5 6 show ?thesis by blast
qed

lemma eval_dconst [simp]: "eval ops call_fn args m (dconst x) = Some (VDouble x)"
  by (simp add: dconst_def DOUBLE_def eval_const_def)

lemma eval_sigmoid:
  assumes "populate_sigmoid input alpha = Inr v"
    and "eval ops call_fn args m input = Some (VDouble x)"
  shows "eval ops call_fn args m v = Some (VDouble (sigmoid ops alpha x))"
  using assms
  by (auto simp: populate_sigmoid_def Let_def sigmoid_def llvm_exp_def eval_intrinsic_def
      on_doubles_def split: if_splits)

text \<open>The value of the instructions emitted for an objective, when it is lowered.\<close>

lemma objective_eval:
  assumes gen: "populate_objective_func_block py_float input objective cfg = Inr v"
    and alpha: "objective = ''binary'' \<Longrightarrow>
                  py_index (split_on CHR '':'' cfg) 1 = Inr a \<and> py_float a = Some alpha"
    and inp: "eval ops call_fn args m input = Some (VDouble x)"
  shows "eval ops call_fn args m v = Some (VDouble (objective_transform ops alpha objective cfg x))"
proof -
  let ?g1 = "objective = ''xentropy'' \<or> objective = ''cross_entropy''"
  let ?g2 = "objective = ''xentlambda'' \<or> objective = ''cross_entropy_lambda''"
  let ?g3 = "objective = ''poisson'' \<or> objective = ''gamma'' \<or> objective = ''tweedie''"
  let ?g4 = "objective = ''regression'' \<or> objective = ''regression_l1'' \<or> objective = ''huber''
              \<or> objective = ''fair'' \<or> objective = ''quantile'' \<or> objective = ''mape''"
  let ?g5 = "objective = ''lambdarank'' \<or> objective = ''rank_xendcg'' \<or> objective = ''custom''"
  note u = populate_objective_func_block_unfold [of py_float input objective cfg]
  note t = objective_transform_def [of ops alpha objective cfg x]
  show ?thesis
  proof (cases "objective = ''binary''")
    case b: True
    with gen alpha u have "populate_sigmoid input alpha = Inr v" by simp
    from eval_sigmoid [OF this inp] b t show ?thesis by simp
  next
    case n0: False
    show ?thesis
    proof (cases "?g1")
      case g1: True
      note g1 = n0 g1
      then have "populate_objective_func_block py_float input objective cfg
          = populate_sigmoid input f64_one"
        unfolding u by (simp only: if_True if_False)
      with gen have "populate_sigmoid input f64_one = Inr v" by simp
      moreover from g1 have "objective_transform ops alpha objective cfg x = sigmoid ops f64_one x"
        unfolding t by (simp only: if_True if_False)
      ultimately show ?thesis using eval_sigmoid [OF _ inp] by simp
    next
      case n1: False
      show ?thesis
      proof (cases "?g2")
        case g2: True
        note g2 = n0 n1 g2
        then have "populate_objective_func_block py_float input objective cfg
            = Inr (Call llvm_log [FAdd (dconst f64_one) (Call llvm_exp [input])])"
          unfolding u by (simp only: if_True if_False)
        with gen have v: "v = Call llvm_log [FAdd (dconst f64_one) (Call llvm_exp [input])]" by simp
        from g2 have "objective_transform ops alpha objective cfg x
            = op_log ops (op_fadd ops f64_one (op_exp ops x))"
          unfolding t by (simp only: if_True if_False)
        then show ?thesis using inp
          by (simp add: v llvm_exp_def llvm_log_def eval_intrinsic_def on_doubles_def)
      next
        case n2: False
        show ?thesis
        proof (cases "?g3")
          case g3: True
          note g3 = n0 n1 n2 g3
          then have "populate_objective_func_block py_float input objective cfg
              = Inr (Call llvm_exp [input])"
            unfolding u by (simp only: if_True if_False)
          with gen have v: "v = Call llvm_exp [input]" by simp
          from g3 have "objective_transform ops alpha objective cfg x = op_exp ops x"
            unfolding t by (simp only: if_True if_False)
          then show ?thesis using inp
            by (simp add: v llvm_exp_def eval_intrinsic_def)
        next
          case n3: False
          show ?thesis
          proof (cases "?g4")
            case g4: True
            note g4 = n0 n1 n2 n3 g4
            then have "populate_objective_func_block py_float input objective cfg
                = (if py_in ''sqrt'' cfg then Inr (Call llvm_copysign [FMul input input, input])
                   else Inr input)"
              unfolding u by (simp only: if_True if_False)
            with gen have v: "v = (if py_in ''sqrt'' cfg
                then Call llvm_copysign [FMul input input, input] else input)"
              by (simp split: if_splits)
            from g4 have "objective_transform ops alpha objective cfg x
                = (if py_in ''sqrt'' cfg then f64_copysign (f64_mul ops x x) x else x)"
              unfolding t by (simp only: if_True if_False)
            then show ?thesis using inp
              by (simp add: v llvm_copysign_def eval_intrinsic_def on_doubles_def)
          next
            case n4: False
            show ?thesis
            proof (cases "?g5")
              case g5: True
              note g5 = n0 n1 n2 n3 n4 g5
              then have "populate_objective_func_block py_float input objective cfg = Inr input"
                unfolding u by (simp only: if_True if_False)
              with gen have v: "v = input" by simp
              from g5 have "objective_transform ops alpha objective cfg x = x"
                unfolding t by (simp only: if_True if_False)
              then show ?thesis using inp by (simp add: v)
            next
              case n5: False
              note other = n0 n1 n2 n3 n4 n5
              then have "populate_objective_func_block py_float input objective cfg
                  = Inl (ValueError_objective objective)"
                unfolding u by (simp only: if_True if_False)
              with gen show ?thesis by simp
            qed
          qed
        qed
      qed
    qed
  qed
qed

lemma f64_mul_minus_four: "f64_mul ops f64_minus_four f64_minus_four = 0x4030000000000000"
proof -
  have e: "f64_exp 0xC010000000000000 = 1025" by (simp add: f64_exp_def)
  have f: "f64_frac 0xC010000000000000 = 0" by (simp add: f64_frac_def)
  have g: "f64_mag 0xC010000000000000 = 0x4010000000000000" by (simp add: f64_mag_def)
  have b: "bitlen 20282409603651670423947251286016 = 105" by (simp add: bitlen.simps)
  have s: "f64_sig 0xC010000000000000 = 4503599627370496" by (simp add: f64_sig_def e f)
  have p: "f64_pow 0xC010000000000000 = - 50" by (simp add: f64_pow_def e)
  have r: "f64_round False 20282409603651670423947251286016 (- 100) = 0x4030000000000000"
    by (simp add: f64_round_def Let_def b f64_signbit_def f64_inf_mag_def)
  have n: "\<not> is_nan 0xC010000000000000" "\<not> is_inf 0xC010000000000000"
    by (simp_all add: is_nan_def is_inf_def g f64_inf_mag_def)
  have "f64_mul ops 0xC010000000000000 0xC010000000000000
          = f64_round False (f64_sig 0xC010000000000000 * f64_sig 0xC010000000000000)
              (f64_pow 0xC010000000000000 + f64_pow 0xC010000000000000)"
    unfolding f64_mul_def Let_def using n by simp
  also have "\<dots> = 0x4030000000000000"
    unfolding s p using r by simp
  finally show ?thesis by (simp add: f64_minus_four_def)
qed

lemma sqrt_example:
  "objective_transform ops alpha ''regression'' ''sqrt'' f64_minus_four = f64_minus_sixteen"
proof -
  have "f64_copysign 0x4030000000000000 f64_minus_four = f64_minus_sixteen"
    by (simp add: f64_copysign_def f64_minus_four_def f64_minus_sixteen_def)
  then show ?thesis
    by (simp add: objective_transform_def f64_mul_minus_four)
qed

text \<open>
  C6. For each implemented objective, with a configuration of \<open>binary\<close> whose part after the
  \<open>:\<close> is read by \<open>float\<close> as an \<open>alpha > 0\<close>, the objective is lowered, and the emitted
  instructions compute the transform of the specification's table from the accumulator: the
  sigmoid with the parsed \<open>alpha\<close> for \<open>binary\<close>, the sigmoid with \<open>alpha = 1\<close> for \<open>xentropy\<close>
  and \<open>cross_entropy\<close>, \<open>log(1 + exp(x))\<close> for \<open>xentlambda\<close> and \<open>cross_entropy_lambda\<close>,
  \<open>exp(x)\<close> for \<open>poisson\<close>, \<open>gamma\<close> and \<open>tweedie\<close>, \<open>copysign(x * x, x)\<close> for the regression
  objectives when the configuration contains \<open>sqrt\<close> and \<open>x\<close> otherwise, and \<open>x\<close> for
  \<open>lambdarank\<close>, \<open>rank_xendcg\<close> and \<open>custom\<close>. The witness has the sigmoid of \<open>binary\<close> with
  the configuration \<open>sigmoid:1.0\<close>, and the example of the specification: \<open>regression\<close>
  with \<open>sqrt\<close> takes \<open>-4.0\<close> to \<open>-16.0\<close>.
\<close>

theorem objective_transform_correct:
  assumes obj: "objective \<in> set objectives"
    and alpha: "objective = ''binary'' \<Longrightarrow>
                  py_index (split_on CHR '':'' cfg) 1 = Inr a \<and> py_float a = Some alpha
                  \<and> \<not> py_le alpha f64_pos_zero"
    and inp: "eval ops call_fn args m input = Some (VDouble x)"
  shows "\<exists>v. populate_objective_func_block py_float input objective cfg = Inr v
           \<and> eval ops call_fn args m v
               = Some (VDouble (objective_transform ops alpha objective cfg x))"
proof -
  have "\<exists>v. populate_objective_func_block py_float input objective cfg = Inr v"
  proof (cases "objective = ''binary''")
    case True
    with alpha show ?thesis by (simp add: objective_binary)
  next
    case False
    from objective_not_binary [OF False, of py_float input cfg] obj show ?thesis by simp
  qed
  then obtain v where v: "populate_objective_func_block py_float input objective cfg = Inr v"
    by blast
  from alpha have "objective = ''binary'' \<Longrightarrow>
      py_index (split_on CHR '':'' cfg) 1 = Inr a \<and> py_float a = Some alpha" by simp
  from objective_eval [OF v this inp] v show ?thesis by simp
qed

theorem objective_transform_correct_witness:
  "(\<forall>ops call_fn m x.
      \<exists>v. populate_objective_func_block float_of (Argument 0 DOUBLE) ''binary'' ''sigmoid:1.0''
             = Inr v
         \<and> eval ops call_fn [VDouble x] m v
             = Some (VDouble (op_fdiv ops f64_one
                       (op_fadd ops f64_one (op_exp ops (f64_mul ops (f64_neg f64_one) x))))))
   \<and> (\<forall>ops call_fn m.
      \<exists>v. populate_objective_func_block float_of (Argument 0 DOUBLE) ''regression'' ''sqrt''
             = Inr v
         \<and> eval ops call_fn [VDouble f64_minus_four] m v = Some (VDouble f64_minus_sixteen))"
proof -
  have i: "eval ops call_fn [VDouble x] m (Argument 0 DOUBLE) = Some (VDouble x)"
    for ops call_fn m x
    by (simp add: DOUBLE_def)
  have b: "''binary'' \<in> set objectives" "''regression'' \<in> set objectives"
    by (simp_all add: objectives_def)
  have a: "py_index (split_on CHR '':'' ''sigmoid:1.0'') 1 = Inr ''1.0''
      \<and> float_of ''1.0'' = Some f64_one \<and> \<not> py_le f64_one f64_pos_zero"
    by (simp add: py_index_def float_of_def one_not_le_zero)
  have 1: "\<exists>v. populate_objective_func_block float_of (Argument 0 DOUBLE) ''binary''
                 ''sigmoid:1.0'' = Inr v
         \<and> eval ops call_fn [VDouble x] m v
             = Some (VDouble (op_fdiv ops f64_one
                       (op_fadd ops f64_one (op_exp ops (f64_mul ops (f64_neg f64_one) x)))))"
    for ops call_fn m x
    using objective_transform_correct [where py_float = float_of and objective = "''binary''"
        and cfg = "''sigmoid:1.0''" and a = "''1.0''" and alpha = f64_one
        and input = "Argument 0 DOUBLE" and args = "[VDouble x]" and ops = ops
        and call_fn = call_fn and m = m and x = x, OF b(1) a i]
    by (simp add: objective_transform_def sigmoid_def)
  have 2: "\<exists>v. populate_objective_func_block float_of (Argument 0 DOUBLE) ''regression''
                 ''sqrt'' = Inr v
         \<and> eval ops call_fn [VDouble f64_minus_four] m v = Some (VDouble f64_minus_sixteen)"
    for ops call_fn m
    using objective_transform_correct [where py_float = float_of
        and objective = "''regression''" and cfg = "''sqrt''" and a = "[]" and alpha = f64_one
        and input = "Argument 0 DOUBLE" and args = "[VDouble f64_minus_four]" and ops = ops
        and call_fn = call_fn and m = m and x = f64_minus_four, OF b(2) _ i]
    by (simp add: sqrt_example)
  from 1 2 show ?thesis by blast
qed

section \<open>Numerical nodes\<close>

lemma py_index_0 [simp]: "py_index (x # xs) 0 = Inr x"
  by (simp add: py_index_def)

lemma func_args_one_double [simp]: "func_args one_double_func = [Argument 0 DOUBLE]"
  by (simp add: func_args_def one_double_func_def new_function_def)

text \<open>
  C1. For a numerical decision node whose split feature is a parameter of the function, the
  emitted branch condition is, with the effective \<open>default_left\<close> (for \<open>MNone\<close>:
  \<open>0.0 <= threshold\<close>): the unordered \<open>v <= t\<close> when it is true and the missing type is not
  \<open>MZero\<close> or \<open>0.0 <= t\<close>; \<open>(v == 0.0) or (v <= t)\<close>, unordered, when it is true otherwise; the
  ordered \<open>v <= t\<close> when it is false and the missing type is not \<open>MZero\<close> or \<open>t < 0.0\<close>; and
  \<open>not ((v == 0.0) or (v > t))\<close>, with an ordered \<open>>\<close>, when it is false otherwise. Exactly
  one of the four cases applies.
\<close>

theorem numerical_condition_table:
  assumes v: "py_index (func_args func) sf = Inr v"
  shows "\<exists>c. populate_numerical_node_block func (DecisionNode i sf t dt ct l r) = Inr c
     \<and> (effective_default_left dt t \<and> (missing_type dt \<noteq> MZero \<or> py_le f64_pos_zero t)
          \<longrightarrow> c = FCmpUnordered ''<='' v (Constant DOUBLE (PyFloat t)))
     \<and> (effective_default_left dt t \<and> \<not> (missing_type dt \<noteq> MZero \<or> py_le f64_pos_zero t)
          \<longrightarrow> c = BitOr (FCmpUnordered ''=='' v (fconst f64_pos_zero))
                        (FCmpUnordered ''<='' v (Constant DOUBLE (PyFloat t))))
     \<and> (\<not> effective_default_left dt t \<and> (missing_type dt \<noteq> MZero \<or> py_lt t f64_pos_zero)
          \<longrightarrow> c = FCmpOrdered ''<='' v (Constant DOUBLE (PyFloat t)))
     \<and> (\<not> effective_default_left dt t \<and> \<not> (missing_type dt \<noteq> MZero \<or> py_lt t f64_pos_zero)
          \<longrightarrow> c = Not (BitOr (FCmpUnordered ''=='' v (fconst f64_pos_zero))
                             (FCmpOrdered ''>'' v (Constant DOUBLE (PyFloat t)))))
     \<and> length (filter id
          [effective_default_left dt t \<and> (missing_type dt \<noteq> MZero \<or> py_le f64_pos_zero t),
           effective_default_left dt t \<and> \<not> (missing_type dt \<noteq> MZero \<or> py_le f64_pos_zero t),
           \<not> effective_default_left dt t \<and> (missing_type dt \<noteq> MZero \<or> py_lt t f64_pos_zero),
           \<not> effective_default_left dt t \<and> \<not> (missing_type dt \<noteq> MZero \<or> py_lt t f64_pos_zero)])
         = 1"
  using v by (simp add: effective_default_left_def Let_def)

theorem numerical_condition_table_witness:
  "py_index (func_args one_double_func) 0 = Inr (Argument 0 DOUBLE)
   \<and> populate_numerical_node_block one_double_func mzero_left_node
       = Inr (BitOr (FCmpUnordered ''=='' (Argument 0 DOUBLE) (fconst f64_pos_zero))
                    (FCmpUnordered ''<='' (Argument 0 DOUBLE) (Constant DOUBLE (PyFloat f64_minus_one))))"
proof -
  have v: "py_index (func_args one_double_func) 0 = Inr (Argument 0 DOUBLE)" by simp
  have k: "f64_key f64_minus_one = - 0x3FF0000000000000" "\<not> is_nan f64_minus_one"
    by (simp_all add: f64_key_def f64_sign_def f64_mag_def f64_minus_one_def is_nan_def f64_inf_mag_def)
  have z: "f64_key f64_pos_zero = 0" "\<not> is_nan f64_pos_zero"
    by (simp_all add: f64_key_def f64_sign_def f64_mag_def f64_pos_zero_def is_nan_def f64_inf_mag_def)
  have n: "\<not> py_le f64_pos_zero f64_minus_one"
    by (simp add: py_le_def k z)
  from numerical_condition_table [OF v, of 0 f64_minus_one
      "\<lparr>is_categorical = False, is_default_left = True, missing_type = MZero\<rparr>" None
      "Some (LeafNode 0 f64_one)" "Some (LeafNode 1 f64_minus_one)"] n v
  show ?thesis
    by (auto simp: mzero_left_node_def effective_default_left_def)
qed









end
